theory Spec2Isabelle
  imports Main "HOL-Library.List_Lexorder"
begin

section \<open>Values of the runtime\<close>

text \<open>
  A JavaScript string is a sequence of UTF-16 code units; a code unit is modelled as a
  natural number. \<open>str\<close> turns an ASCII literal of the source into such a sequence.
\<close>

type_synonym jsstring = "nat list"

definition str :: "string \<Rightarrow> jsstring" where
  "str s = map of_char s"

text \<open>
  A value that may be missing. The source tells \<open>undefined\<close> from \<open>null\<close> in
  places (\<open>!== null\<close>, a property that is left out of an object), so both are kept.
\<close>

datatype 'a jsopt = Undefined | Null | Val 'a

text \<open>
  A Number that was read from text. \<open>Decimal neg m e\<close> stands for the double nearest
  to \<open>(-1)^neg * m * 10^e\<close>; the rounding to a double is left to the runtime and is not
  part of this development. Neither \<open>Infinity\<close> nor \<open>Decimal\<close> is the not-a-number
  value.
\<close>

datatype jsnumber = NaN | Infinity bool | Decimal bool nat int

text \<open>
  A Number that holds a whole number, or one of the special values such arithmetic can
  end in. \<open>Finite n\<close> stands for the double of value \<open>n\<close>; the quantities the query
  returns are doubles. The sign of zero is not kept: no result below depends on it.
\<close>

datatype double = NotANumber | Infinite bool | Finite int

text \<open>
  The spacing of the doubles around a magnitude: \<open>1\<close> below \<open>2^53\<close>, doubling with
  every further binary digit.
\<close>

fun ulp :: "nat \<Rightarrow> nat" where
  "ulp a = (if a < 9007199254740992 then 1 else 2 * ulp (a div 2))"

declare ulp.simps [simp del]

text \<open>The multiple of \<open>u\<close> nearest to \<open>x\<close>; of two equally near, the even one.\<close>

definition round_to_even :: "int \<Rightarrow> int \<Rightarrow> int" where
  "round_to_even x u =
     (let q = x div u; r = x mod u
      in if 2 * r < u then q * u
         else if u < 2 * r then (q + 1) * u
         else if even q then q * u
         else (q + 1) * u)"

text \<open>
  The double an exact whole result is rounded to: the nearest double, ties to even, and
  infinity once the rounded magnitude reaches \<open>2^1024\<close>.
\<close>

definition to_double :: "int \<Rightarrow> double" where
  "to_double x =
     (let y = round_to_even x (int (ulp (nat \<bar>x\<bar>)))
      in if 2 ^ 1024 \<le> \<bar>y\<bar> then Infinite (x < 0) else Finite y)"

text \<open>\<open>x + y\<close>, \<open>-x\<close>, \<open>x - y\<close> and \<open>Math.max(x, y)\<close> on such Numbers.\<close>

fun dadd :: "double \<Rightarrow> double \<Rightarrow> double" where
  "dadd (Finite a) (Finite b) = to_double (a + b)"
| "dadd (Finite a) (Infinite t) = Infinite t"
| "dadd (Infinite s) (Finite b) = Infinite s"
| "dadd (Infinite s) (Infinite t) = (if s = t then Infinite s else NotANumber)"
| "dadd NotANumber y = NotANumber"
| "dadd x NotANumber = NotANumber"

fun dneg :: "double \<Rightarrow> double" where
  "dneg (Finite a) = Finite (- a)"
| "dneg (Infinite s) = Infinite (\<not> s)"
| "dneg NotANumber = NotANumber"

definition dsub :: "double \<Rightarrow> double \<Rightarrow> double" where
  "dsub x y = dadd x (dneg y)"

fun Math_max :: "double \<Rightarrow> double \<Rightarrow> double" where
  "Math_max (Finite a) (Finite b) = Finite (max a b)"
| "Math_max (Finite a) (Infinite t) = (if t then Finite a else Infinite False)"
| "Math_max (Infinite s) (Finite b) = (if s then Finite b else Infinite False)"
| "Math_max (Infinite s) (Infinite t) = Infinite (s \<and> t)"
| "Math_max NotANumber y = NotANumber"
| "Math_max x NotANumber = NotANumber"

text \<open>\<open>x || 0\<close>: zero and not-a-number are falsy.\<close>

definition or_zero :: "double \<Rightarrow> double" where
  "or_zero x =
     (case x of
        NotANumber \<Rightarrow> Finite 0
      | Infinite s \<Rightarrow> Infinite s
      | Finite n \<Rightarrow> (if n = 0 then Finite 0 else Finite n))"

text \<open>An error object: only its message is kept.\<close>

type_synonym err = jsstring

text \<open>
  Every remote call is awaited. The promise either rejects (the \<open>await\<close> throws) or
  is fulfilled with an object that carries \<open>data\<close> and \<open>error\<close>, the two properties
  the source destructures.
\<close>

record 'a response =
  data :: "'a jsopt"
  error :: "err jsopt"

datatype 'a awaited = Rejected err | Fulfilled 'a

record toast =
  t_title :: jsstring
  t_description :: jsstring
  t_variant :: "jsstring jsopt"


section \<open>The storefront: Menu.tsx\<close>

subsection \<open>Rows as the query returns them\<close>

record order =
  o_status :: jsstring

record order_item =
  oi_quantity :: int
  oi_order :: "order jsopt"

text \<open>
  A row of \<open>menu_items\<close>. \<open>select('*')\<close> returns every column, so the quantity cap
  is always present in a row: a whole number or \<open>null\<close> (\<open>None\<close>). A quantity is
  given by its value; the arithmetic on quantities is that of doubles.
\<close>

record menu_item =
  mi_id :: jsstring
  mi_vendor_id :: jsstring
  mi_name :: jsstring
  mi_name_ko :: "jsstring jsopt"
  mi_description :: "jsstring jsopt"
  mi_description_ko :: "jsstring jsopt"
  mi_price :: jsnumber
  mi_category :: jsstring
  mi_is_available :: bool
  mi_image :: "jsstring jsopt"
  mi_quantity :: "int option"

text \<open>The storefront's query expands each row with its order items and their orders.\<close>

record menu_item_with_orders = menu_item +
  mi_order_items :: "order_item list jsopt"

text \<open>The record handed to the grid.\<close>

record grid_item =
  g_id :: jsstring
  g_name :: jsstring
  g_nameKo :: "jsstring jsopt"
  g_description :: jsstring
  g_descriptionKo :: jsstring
  g_price :: jsnumber
  g_image :: jsstring
  g_remainingQuantity :: "double option"

subsection \<open>The query function\<close>

text \<open>\<open>x || d\<close> on an optional string: the empty string is falsy too.\<close>

definition or_default :: "jsstring jsopt \<Rightarrow> jsstring \<Rightarrow> jsstring" where
  "or_default x d = (case x of Val s \<Rightarrow> (if s = [] then d else s) | _ \<Rightarrow> d)"

text \<open>The callback of \<open>reduce\<close> (lines 41-47); \<open>acc\<close> is the source's \<open>sum\<close>.\<close>

definition count_ordered :: "double \<Rightarrow> order_item \<Rightarrow> double" where
  "count_ordered acc orderItem =
     (let orderStatus = (case oi_order orderItem of Val ord \<Rightarrow> Val (o_status ord) | _ \<Rightarrow> Undefined)
      in if orderStatus = Val (str ''completed'') \<or> orderStatus = Val (str ''pending'')
         then dadd acc (Finite (oi_quantity orderItem))
         else acc)"

text \<open>\<open>item.order_items?.reduce(..., 0) || 0\<close>\<close>

definition totalOrdered :: "('a menu_item_with_orders_scheme) \<Rightarrow> double" where
  "totalOrdered item =
     (case mi_order_items item of
        Val order_items \<Rightarrow> or_zero (foldl count_ordered (Finite 0) order_items)
      | _ \<Rightarrow> Finite 0)"

text \<open>\<open>item.quantity !== null ? Math.max(0, item.quantity - totalOrdered) : null\<close>.\<close>

definition remainingQuantity :: "('a menu_item_with_orders_scheme) \<Rightarrow> double option" where
  "remainingQuantity item =
     (case mi_quantity item of
        Some cap \<Rightarrow> Some (Math_max (Finite 0) (dsub (Finite cap) (totalOrdered item)))
      | None \<Rightarrow> None)"

definition to_grid_item :: "('a menu_item_with_orders_scheme) \<Rightarrow> grid_item" where
  "to_grid_item item =
     \<lparr> g_id = mi_id item,
       g_name = mi_name item,
       g_nameKo = mi_name_ko item,
       g_description = or_default (mi_description item) [],
       g_descriptionKo = or_default (mi_description_ko item) [],
       g_price = mi_price item,
       g_image = or_default (mi_image item) (str ''/placeholder.svg''),
       g_remainingQuantity = remainingQuantity item \<rparr>"

text \<open>
  \<open>queryFn\<close> (lines 14-65), given what the awaited query gave. It throws (\<open>Inl\<close>) when
  the await rejects or the response carries an error; it returns the empty list when there
  are no rows, and the mapped rows otherwise.
\<close>

definition queryFn :: "menu_item_with_orders list response awaited \<Rightarrow> err + grid_item list" where
  "queryFn answer =
     (case answer of
        Rejected e \<Rightarrow> Inl e
      | Fulfilled resp \<Rightarrow>
          (case error resp of
             Val e \<Rightarrow> Inl e
           | _ \<Rightarrow>
              (case data resp of
                 Val items \<Rightarrow> (if items = [] then Inr [] else Inr (map to_grid_item items))
               | _ \<Rightarrow> Inr [])))"

subsection \<open>Rendering\<close>

text \<open>
  What \<open>useQuery\<close> hands to the component: \<open>data\<close> is \<open>undefined\<close> (\<open>None\<close>) until the
  query function has returned, \<open>error\<close> is set once it has thrown.
\<close>

record 'a query_result =
  q_data :: "'a option"
  q_isLoading :: bool
  q_error :: "err option"

definition query_pending :: "'a query_result" where
  "query_pending = \<lparr> q_data = None, q_isLoading = True, q_error = None \<rparr>"

definition query_settled :: "err + 'a \<Rightarrow> 'a query_result" where
  "query_settled r =
     (case r of
        Inl e \<Rightarrow> \<lparr> q_data = None, q_isLoading = False, q_error = Some e \<rparr>
      | Inr d \<Rightarrow> \<lparr> q_data = Some d, q_isLoading = False, q_error = None \<rparr>)"

datatype screen = ErrorBlock | LoadingBlock | MenuGrid "grid_item list"

definition load_failed_toast :: toast where
  "load_failed_toast =
     \<lparr> t_title = str ''Error'',
       t_description = str ''Failed to load menu items. Please try again later.'',
       t_variant = Val (str ''destructive'') \<rparr>"

text \<open>
  The component body (lines 12, 68-104): the notifications it raises while rendering and
  what it renders. The default \<open>[]\<close> of the destructuring applies while \<open>data\<close> is
  \<open>undefined\<close>.
\<close>

definition Menu :: "grid_item list query_result \<Rightarrow> toast list \<times> screen" where
  "Menu q =
     (let menuItems = (case q_data q of None \<Rightarrow> [] | Some d \<Rightarrow> d)
      in if q_error q \<noteq> None then ([load_failed_toast], ErrorBlock)
         else if q_isLoading q then ([], LoadingBlock)
         else ([], MenuGrid menuItems))"


section \<open>The administration screen: MenuManagement\<close>

subsection \<open>Reading a number from text\<close>

text \<open>
  \<open>parseFloat\<close> is the runtime's: it drops leading white space, reads the longest
  prefix that is a decimal literal (an optional sign, then \<open>Infinity\<close>, or digits with
  an optional fraction, or a fraction alone, then an optional exponent) and ignores
  whatever follows; without such a prefix the result is \<open>NaN\<close>.
\<close>

definition isWhiteSpace :: "nat \<Rightarrow> bool" where
  "isWhiteSpace c =
     (c = 9 \<or> c = 10 \<or> c = 11 \<or> c = 12 \<or> c = 13 \<or> c = 32 \<or> c = 160 \<or> c = 5760
      \<or> (8192 \<le> c \<and> c \<le> 8202) \<or> c = 8232 \<or> c = 8233 \<or> c = 8239 \<or> c = 8287
      \<or> c = 12288 \<or> c = 65279)"

definition isDigit :: "nat \<Rightarrow> bool" where
  "isDigit c = (48 \<le> c \<and> c \<le> 57)"

definition digits_value :: "jsstring \<Rightarrow> nat" where
  "digits_value ds = foldl (\<lambda>a c. 10 * a + (c - 48)) 0 ds"

text \<open>
  The exponent part at the head of \<open>r\<close>: \<open>e\<close> or \<open>E\<close>, an optional sign and at least
  one digit. When the digits are missing there is no exponent part, and the value is \<open>0\<close>.
\<close>

definition exponentPart :: "jsstring \<Rightarrow> int" where
  "exponentPart r =
     (case r of
        [] \<Rightarrow> 0
      | c # r' \<Rightarrow>
          if c = 101 \<or> c = 69 then
            (case r' of
               [] \<Rightarrow> 0
             | d # r'' \<Rightarrow>
                 if d = 43 then int (digits_value (takeWhile isDigit r''))
                 else if d = 45 then - int (digits_value (takeWhile isDigit r''))
                 else int (digits_value (takeWhile isDigit r')))
          else 0)"

definition unsignedDecimalLiteral :: "bool \<Rightarrow> jsstring \<Rightarrow> jsnumber" where
  "unsignedDecimalLiteral neg u =
     (if take 8 u = str ''Infinity'' then Infinity neg
      else
        (let ip = takeWhile isDigit u; r1 = dropWhile isDigit u
         in case r1 of
              [] \<Rightarrow> (if ip = [] then NaN else Decimal neg (digits_value ip) 0)
            | c # r2 \<Rightarrow>
                if c = 46 then
                  (let fp = takeWhile isDigit r2; r3 = dropWhile isDigit r2
                   in if ip = [] \<and> fp = [] then NaN
                      else Decimal neg (digits_value (ip @ fp)) (exponentPart r3 - int (length fp)))
                else if ip = [] then NaN
                else Decimal neg (digits_value ip) (exponentPart r1)))"

definition parseFloat :: "jsstring \<Rightarrow> jsnumber" where
  "parseFloat s =
     (case dropWhile isWhiteSpace s of
        [] \<Rightarrow> NaN
      | c # u \<Rightarrow>
          if c = 43 then unsignedDecimalLiteral False u
          else if c = 45 then unsignedDecimalLiteral True u
          else unsignedDecimalLiteral False (c # u))"

subsection \<open>Component state\<close>

record form_data =
  f_name :: jsstring
  f_name_ko :: jsstring
  f_description :: jsstring
  f_description_ko :: jsstring
  f_price :: jsstring
  f_category :: jsstring
  f_is_available :: bool

record image_file =
  file_name :: jsstring
  file_content :: "nat list"

text \<open>The six \<open>useState\<close> cells of the component (lines 25-38).\<close>

record ui_state =
  menuItems :: "menu_item list"
  loading :: bool
  isDialogOpen :: bool
  editingItem :: "menu_item option"
  selectedImage :: "image_file option"
  formData :: form_data

definition empty_form :: form_data where
  "empty_form =
     \<lparr> f_name = [], f_name_ko = [], f_description = [], f_description_ko = [],
       f_price = [], f_category = [], f_is_available = True \<rparr>"

definition initial_state :: ui_state where
  "initial_state =
     \<lparr> menuItems = [], loading = True, isDialogOpen = False, editingItem = None,
       selectedImage = None, formData = empty_form \<rparr>"

definition resetForm :: "ui_state \<Rightarrow> ui_state" where
  "resetForm st = st\<lparr> formData := empty_form \<rparr>"

record user =
  u_id :: jsstring

record session =
  s_user :: user

text \<open>\<open>session?.user?.id\<close>\<close>

definition session_user_id :: "session option \<Rightarrow> jsstring jsopt" where
  "session_user_id s = (case s of None \<Rightarrow> Undefined | Some x \<Rightarrow> Val (u_id (s_user x)))"

subsection \<open>Requests and what the component does besides changing its state\<close>

text \<open>The row \<open>select('id')\<close> gives for a vendor.\<close>

record vendor =
  vd_id :: jsstring

text \<open>\<open>menuItemData\<close> (lines 111-121), the object handed to \<open>insert\<close> and \<open>update\<close>.\<close>

record menu_item_data =
  d_vendor_id :: jsstring
  d_name :: jsstring
  d_name_ko :: "jsstring jsopt"
  d_description :: "jsstring jsopt"
  d_description_ko :: "jsstring jsopt"
  d_price :: jsnumber
  d_category :: jsstring
  d_is_available :: bool
  d_image :: "jsstring jsopt"

datatype request =
    SelectVendor "jsstring jsopt"
  | SelectMenuItems jsstring
  | Upload jsstring image_file
  | Update menu_item_data jsstring
  | Insert "menu_item_data list"

datatype event = Remote request | ConsoleError jsstring | Toast toast

text \<open>
  The answers of the remote side, one for each call an operation makes. They are inputs:
  nothing is assumed about them.
\<close>

record load_env =
  l_vendor :: "jsstring jsopt \<Rightarrow> vendor response awaited"
  l_menu_items :: "jsstring \<Rightarrow> menu_item list response awaited"

record submit_env =
  s_vendor :: "jsstring jsopt \<Rightarrow> vendor response awaited"
  s_randomUUID :: jsstring
  s_upload :: "jsstring \<Rightarrow> image_file \<Rightarrow> unit response awaited"
  s_getPublicUrl :: "jsstring \<Rightarrow> jsstring"
  s_update :: "menu_item_data \<Rightarrow> jsstring \<Rightarrow> unit response awaited"
  s_insert :: "menu_item_data list \<Rightarrow> unit response awaited"
  s_reload :: load_env

subsection \<open>loadMenuItems (lines 44-70)\<close>

definition failed_to_load :: toast where
  "failed_to_load =
     \<lparr> t_title = str ''Error'', t_description = str ''Failed to load menu items'',
       t_variant = Val (str ''destructive'') \<rparr>"

definition load_caught :: "event list" where
  "load_caught = [ConsoleError (str ''Error loading menu items:''), Toast failed_to_load]"

text \<open>
  Only \<open>data\<close> is read from either response. The \<open>catch\<close> block runs when an
  \<open>await\<close> rejects; the \<open>finally\<close> block always runs.
\<close>

definition loadMenuItems :: "load_env \<Rightarrow> session option \<Rightarrow> ui_state \<Rightarrow> event list \<times> ui_state" where
  "loadMenuItems env session st =
     (let uid = session_user_id session;
          (evs, st') =
            (case l_vendor env uid of
               Rejected e \<Rightarrow> (Remote (SelectVendor uid) # load_caught, st)
             | Fulfilled resp \<Rightarrow>
                 (case data resp of
                    Val vendorData \<Rightarrow>
                      (case l_menu_items env (vd_id vendorData) of
                         Rejected e \<Rightarrow>
                           ([Remote (SelectVendor uid), Remote (SelectMenuItems (vd_id vendorData))]
                              @ load_caught, st)
                       | Fulfilled resp' \<Rightarrow>
                           ([Remote (SelectVendor uid), Remote (SelectMenuItems (vd_id vendorData))],
                            st\<lparr> menuItems := (case data resp' of Val rows \<Rightarrow> rows | _ \<Rightarrow> []) \<rparr>))
                  | _ \<Rightarrow> ([Remote (SelectVendor uid)], st)))
      in (evs, st'\<lparr> loading := False \<rparr>))"

subsection \<open>handleImageUpload (lines 72-93)\<close>

text \<open>\<open>split\<close> on a separator: the pieces between its occurrences, at least one piece.\<close>

fun split_on :: "nat \<Rightarrow> jsstring \<Rightarrow> jsstring list" where
  "split_on c [] = [[]]"
| "split_on c (x # xs) =
     (if x = c then [] # split_on c xs
      else (case split_on c xs of [] \<Rightarrow> [[x]] | y # ys \<Rightarrow> (x # y) # ys))"

definition pop :: "'a list \<Rightarrow> 'a jsopt" where
  "pop xs = (if xs = [] then Undefined else Val (last xs))"

text \<open>A value inside a template literal.\<close>

definition in_template :: "jsstring jsopt \<Rightarrow> jsstring" where
  "in_template x =
     (case x of Undefined \<Rightarrow> str ''undefined'' | Null \<Rightarrow> str ''null'' | Val s \<Rightarrow> s)"

definition upload_path :: "jsstring \<Rightarrow> image_file \<Rightarrow> jsstring" where
  "upload_path uuid f =
     (let fileExt = pop (split_on 46 (file_name f));
          fileName = uuid @ str ''.'' @ in_template fileExt;
          filePath = fileName
      in filePath)"

definition handleImageUpload :: "submit_env \<Rightarrow> image_file \<Rightarrow> event list \<times> (err + jsstring)" where
  "handleImageUpload env f =
     (let filePath = upload_path (s_randomUUID env) f
      in case s_upload env filePath f of
           Rejected e \<Rightarrow>
             ([Remote (Upload filePath f), ConsoleError (str ''Error uploading image:'')], Inl e)
         | Fulfilled resp \<Rightarrow>
             (case error resp of
                Val uploadError \<Rightarrow>
                  ([Remote (Upload filePath f), ConsoleError (str ''Error uploading image:'')],
                   Inl uploadError)
              | _ \<Rightarrow> ([Remote (Upload filePath f)], Inr (s_getPublicUrl env filePath))))"

subsection \<open>handleSubmit (lines 95-155)\<close>

text \<open>Lines 98-104: the vendor of the signed-in user, or a throw.\<close>

definition resolve_vendor :: "vendor response awaited \<Rightarrow> err + vendor" where
  "resolve_vendor answer =
     (case answer of
        Rejected e \<Rightarrow> Inl e
      | Fulfilled resp \<Rightarrow>
          (case data resp of
             Val vendorData \<Rightarrow> Inr vendorData
           | _ \<Rightarrow> Inl (str ''Vendor not found'')))"

text \<open>Lines 106-109: \<open>imageUrl\<close>.\<close>

definition choose_image :: "submit_env \<Rightarrow> ui_state \<Rightarrow> event list \<times> (err + jsstring jsopt)" where
  "choose_image env st =
     (case selectedImage st of
        Some f \<Rightarrow>
          (case handleImageUpload env f of
             (evs, Inl e) \<Rightarrow> (evs, Inl e)
           | (evs, Inr publicUrl) \<Rightarrow> (evs, Inr (Val publicUrl)))
      | None \<Rightarrow>
          ([], Inr (case editingItem st of Some item \<Rightarrow> mi_image item | None \<Rightarrow> Undefined)))"

text \<open>\<open>x || null\<close> on a string of the form.\<close>

definition or_null :: "jsstring \<Rightarrow> jsstring jsopt" where
  "or_null s = (if s = [] then Null else Val s)"

definition menuItemData :: "vendor \<Rightarrow> form_data \<Rightarrow> jsstring jsopt \<Rightarrow> menu_item_data" where
  "menuItemData vendorData form imageUrl =
     \<lparr> d_vendor_id = vd_id vendorData,
       d_name = f_name form,
       d_name_ko = or_null (f_name_ko form),
       d_description = or_null (f_description form),
       d_description_ko = or_null (f_description_ko form),
       d_price = parseFloat (f_price form),
       d_category = f_category form,
       d_is_available = f_is_available form,
       d_image = imageUrl \<rparr>"

text \<open>Lines 123-133: the request made, and the error it came back with, if any.\<close>

definition save_request :: "menu_item option \<Rightarrow> menu_item_data \<Rightarrow> request" where
  "save_request editing d =
     (case editing of Some item \<Rightarrow> Update d (mi_id item) | None \<Rightarrow> Insert [d])"

definition error_of :: "'a response awaited \<Rightarrow> err option" where
  "error_of answer =
     (case answer of
        Rejected e \<Rightarrow> Some e
      | Fulfilled resp \<Rightarrow> (case error resp of Val e \<Rightarrow> Some e | _ \<Rightarrow> None))"

definition save_error :: "submit_env \<Rightarrow> menu_item option \<Rightarrow> menu_item_data \<Rightarrow> err option" where
  "save_error env editing d =
     (case editing of
        Some item \<Rightarrow> error_of (s_update env d (mi_id item))
      | None \<Rightarrow> error_of (s_insert env [d]))"

definition failed_to_save :: toast where
  "failed_to_save =
     \<lparr> t_title = str ''Error'', t_description = str ''Failed to save menu item'',
       t_variant = Val (str ''destructive'') \<rparr>"

definition saved :: "menu_item option \<Rightarrow> toast" where
  "saved editing =
     \<lparr> t_title = str ''Success'',
       t_description =
         str ''Menu item '' @ (if editing \<noteq> None then str ''updated'' else str ''added'')
           @ str '' successfully'',
       t_variant = Undefined \<rparr>"

definition save_caught :: "event list" where
  "save_caught = [ConsoleError (str ''Error saving menu item:''), Toast failed_to_save]"

text \<open>
  Every throw inside the \<open>try\<close> block ends in the \<open>catch\<close> block, which changes no
  state. \<open>loadMenuItems()\<close> at the end is not awaited; nothing follows it, so it is run
  here after the state changes that precede it.
\<close>

definition handleSubmit :: "submit_env \<Rightarrow> session option \<Rightarrow> ui_state \<Rightarrow> event list \<times> ui_state" where
  "handleSubmit env session st =
     (let uid = session_user_id session
      in case resolve_vendor (s_vendor env uid) of
           Inl e \<Rightarrow> (Remote (SelectVendor uid) # save_caught, st)
         | Inr vendorData \<Rightarrow>
             (case choose_image env st of
                (evs, Inl e) \<Rightarrow> (Remote (SelectVendor uid) # evs @ save_caught, st)
              | (evs, Inr imageUrl) \<Rightarrow>
                  (let d = menuItemData vendorData (formData st) imageUrl;
                       req = save_request (editingItem st) d
                   in case save_error env (editingItem st) d of
                        Some e \<Rightarrow>
                          (Remote (SelectVendor uid) # evs @ Remote req # save_caught, st)
                      | None \<Rightarrow>
                          (let (evs', st') =
                                 loadMenuItems (s_reload env) session
                                   (resetForm (st\<lparr> isDialogOpen := False, editingItem := None,
                                                   selectedImage := None \<rparr>))
                           in (Remote (SelectVendor uid) # evs
                                 @ [Remote req, Toast (saved (editingItem st))] @ evs',
                               st')))))"

subsection \<open>handleEdit (lines 182-194)\<close>

text \<open>
  The form is filled from the item. \<open>item.price.toString()\<close> is the runtime's; it is
  taken as the parameter \<open>toString\<close>.
\<close>

definition handleEdit :: "(jsnumber \<Rightarrow> jsstring) \<Rightarrow> menu_item \<Rightarrow> ui_state \<Rightarrow> ui_state" where
  "handleEdit toString item st =
     st\<lparr> editingItem := Some item,
         formData :=
           \<lparr> f_name = mi_name item,
             f_name_ko = or_default (mi_name_ko item) [],
             f_description = or_default (mi_description item) [],
             f_description_ko = or_default (mi_description_ko item) [],
             f_price = toString (mi_price item),
             f_category = mi_category item,
             f_is_available = mi_is_available item \<rparr>,
         isDialogOpen := True \<rparr>"

subsection \<open>What the component shows (lines 208-249)\<close>




section \<open>The remote side of the administration screen's load\<close>







section \<open>Notions of the specification\<close>

text \<open>What an order item takes from the stock, in the specification's words.\<close>

definition counts_towards_stock :: "order_item \<Rightarrow> bool" where
  "counts_towards_stock oi =
     (case oi_order oi of
        Val ord \<Rightarrow> o_status ord = str ''pending'' \<or> o_status ord = str ''completed''
      | _ \<Rightarrow> False)"

definition order_items_of :: "('a menu_item_with_orders_scheme) \<Rightarrow> order_item list" where
  "order_items_of item = (case mi_order_items item of Val ois \<Rightarrow> ois | _ \<Rightarrow> [])"

definition consumed :: "('a menu_item_with_orders_scheme) \<Rightarrow> int" where
  "consumed item = sum_list (map oi_quantity (filter counts_towards_stock (order_items_of item)))"

text \<open>
  Whole numbers up to \<open>2^53\<close> in magnitude are held exactly by a double, and so are
  their sums and differences as long as these stay in that range. The running totals are
  the sums the storefront passes through while adding up the quantities that count.
\<close>

definition exactly_held :: "int \<Rightarrow> bool" where
  "exactly_held x = (\<bar>x\<bar> \<le> 9007199254740992)"

fun running_totals :: "int \<Rightarrow> int list \<Rightarrow> int list" where
  "running_totals acc [] = []"
| "running_totals acc (q # qs) = (acc + q) # running_totals (acc + q) qs"

definition counted_quantities :: "('a menu_item_with_orders_scheme) \<Rightarrow> int list" where
  "counted_quantities item = map oi_quantity (filter counts_towards_stock (order_items_of item))"


text \<open>The notifications, the requests and the rows written, read off what an operation did.\<close>

fun toasts_of :: "event list \<Rightarrow> toast list" where
  "toasts_of [] = []"
| "toasts_of (Toast t # es) = t # toasts_of es"
| "toasts_of (_ # es) = toasts_of es"

fun requests_of :: "event list \<Rightarrow> request list" where
  "requests_of [] = []"
| "requests_of (Remote r # es) = r # requests_of es"
| "requests_of (_ # es) = requests_of es"

fun written :: "request \<Rightarrow> menu_item_data list" where
  "written (Update d _) = [d]"
| "written (Insert ds) = ds"
| "written _ = []"

definition writes_of :: "event list \<Rightarrow> menu_item_data list" where
  "writes_of es = concat (map written (requests_of es))"


fun is_upload :: "request \<Rightarrow> bool" where
  "is_upload (Upload _ _) = True"
| "is_upload _ = False"

text \<open>
  A price as a person writes one: an optional sign, digits, and possibly a point followed
  by digits. Text that is not of this form is malformed.
\<close>

definition numeric_text :: "jsstring \<Rightarrow> bool" where
  "numeric_text s =
     (let u = (case s of [] \<Rightarrow> [] | c # r \<Rightarrow> if c = 43 \<or> c = 45 then r else s);
          ip = takeWhile isDigit u;
          r1 = dropWhile isDigit u
      in ip \<noteq> [] \<and> (case r1 of [] \<Rightarrow> True | c # r2 \<Rightarrow> c = 46 \<and> r2 \<noteq> [] \<and> list_all isDigit r2))"

text \<open>
  Text that begins like a number: after leading white space and an optional sign comes
  \<open>Infinity\<close>, a digit, or a point followed by a digit.
\<close>

definition starts_number :: "jsstring \<Rightarrow> bool" where
  "starts_number s =
     (let t = dropWhile isWhiteSpace s;
          u = (case t of [] \<Rightarrow> [] | c # r \<Rightarrow> if c = 43 \<or> c = 45 then r else t)
      in take 8 u = str ''Infinity''
         \<or> (case u of
               [] \<Rightarrow> False
             | c # r \<Rightarrow> isDigit c \<or> (c = 46 \<and> (case r of [] \<Rightarrow> False | d # _ \<Rightarrow> isDigit d))))"


section \<open>Example data\<close>

definition answer_ok :: "'a \<Rightarrow> 'a response awaited" where
  "answer_ok x = Fulfilled \<lparr> data = Val x, error = Null \<rparr>"

definition answer_error :: "err \<Rightarrow> 'a response awaited" where
  "answer_error e = Fulfilled \<lparr> data = Null, error = Val e \<rparr>"

definition placed :: "int \<Rightarrow> string \<Rightarrow> order_item" where
  "placed n status = \<lparr> oi_quantity = n, oi_order = Val \<lparr> o_status = str status \<rparr> \<rparr>"

definition dish :: "string \<Rightarrow> string \<Rightarrow> string \<Rightarrow> menu_item" where
  "dish ident vendor_ident category =
     \<lparr> mi_id = str ident, mi_vendor_id = str vendor_ident, mi_name = str ident,
       mi_name_ko = Null, mi_description = Null, mi_description_ko = Null,
       mi_price = Decimal False 12 0, mi_category = str category, mi_is_available = True,
       mi_image = Val (str ''https://cdn.example/old.png''), mi_quantity = None \<rparr>"

definition capped_dish :: menu_item_with_orders where
  "capped_dish =
     menu_item.extend (dish ''bibimbap'' ''vendor-1'' ''rice'' \<lparr> mi_quantity := Some 10 \<rparr>)
       (menu_item_with_orders.fields
          (Val [placed 3 ''pending'', placed 2 ''completed'', placed 5 ''cancelled'']))"

definition bulk_dish :: menu_item_with_orders where
  "bulk_dish =
     menu_item.extend (dish ''rice-sack'' ''vendor-1'' ''bulk'' \<lparr> mi_quantity := Some 18014398509481984 \<rparr>)
       (menu_item_with_orders.fields
          (Val [placed 9007199254740992 ''completed'', placed 1 ''pending'', placed 1 ''pending'']))"

definition uncapped_dish :: menu_item_with_orders where
  "uncapped_dish =
     menu_item.extend (dish ''tea'' ''vendor-1'' ''drinks'')
       (menu_item_with_orders.fields (Val [placed 4 ''pending'', placed 1 ''completed'']))"

definition signed_in :: "session option" where
  "signed_in = Some \<lparr> s_user = \<lparr> u_id = str ''user-1'' \<rparr> \<rparr>"

definition reload_env :: load_env where
  "reload_env =
     \<lparr> l_vendor = (\<lambda>uid. answer_ok \<lparr> vd_id = str ''vendor-1'' \<rparr>),
       l_menu_items = (\<lambda>vid. answer_ok []) \<rparr>"

definition denied_env :: load_env where
  "denied_env =
     \<lparr> l_vendor = (\<lambda>uid. answer_error (str ''permission denied'')),
       l_menu_items = (\<lambda>vid. answer_ok []) \<rparr>"

definition working_env :: submit_env where
  "working_env =
     \<lparr> s_vendor = (\<lambda>uid. answer_ok \<lparr> vd_id = str ''vendor-1'' \<rparr>),
       s_randomUUID = str ''6f1c'',
       s_upload = (\<lambda>path f. answer_ok ()),
       s_getPublicUrl = (\<lambda>path. str ''https://cdn.example/'' @ path),
       s_update = (\<lambda>d ident. answer_ok ()),
       s_insert = (\<lambda>ds. answer_ok ()),
       s_reload = reload_env \<rparr>"




definition photo :: image_file where
  "photo = \<lparr> file_name = str ''photo.png'', file_content = [137, 80, 78, 71] \<rparr>"

definition typed_form :: form_data where
  "typed_form =
     \<lparr> f_name = str ''Kimchi'', f_name_ko = [], f_description = str ''Spicy'',
       f_description_ko = [], f_price = str ''12abc'', f_category = str ''sides'',
       f_is_available = True \<rparr>"

definition adding_state :: ui_state where
  "adding_state = initial_state \<lparr> loading := False, isDialogOpen := True, formData := typed_form \<rparr>"

definition editing_state :: ui_state where
  "editing_state = adding_state \<lparr> editingItem := Some (dish ''kimchi'' ''vendor-1'' ''sides'') \<rparr>"

definition attaching_state :: ui_state where
  "attaching_state = adding_state \<lparr> selectedImage := Some photo \<rparr>"

definition garbled_state :: ui_state where
  "garbled_state = adding_state \<lparr> formData := typed_form \<lparr> f_price := str ''abc'' \<rparr> \<rparr>"



section \<open>Whole numbers in doubles\<close>

lemma ulp_first: "a < 9007199254740992 \<Longrightarrow> ulp a = 1"
  by (subst ulp.simps) simp

lemma ulp_second: "9007199254740992 \<le> a \<Longrightarrow> a < 18014398509481984 \<Longrightarrow> ulp a = 2"
  by (subst ulp.simps) (simp add: ulp_first)

lemma round_to_even_one: "round_to_even x 1 = x"
  by (simp add: round_to_even_def)

text \<open>A whole number up to \<open>2^53\<close> in magnitude is a double.\<close>

lemma to_double_exact:
  assumes "exactly_held x"
  shows "to_double x = Finite x"
proof (cases "\<bar>x\<bar> < 9007199254740992")
  case True
  then have "ulp (nat \<bar>x\<bar>) = 1"
    by (intro ulp_first) simp
  with True show ?thesis
    by (simp add: to_double_def round_to_even_one)
next
  case False
  with assms have edge: "\<bar>x\<bar> = 9007199254740992"
    by (simp add: exactly_held_def)
  then have u: "ulp (nat \<bar>x\<bar>) = 2"
    by (intro ulp_second) simp_all
  from edge have "x = 9007199254740992 \<or> x = - 9007199254740992"
    by arith
  then show ?thesis
    using u by (auto simp: to_double_def round_to_even_def Let_def)
qed

text \<open>\<open>2^53 + 1\<close> is not: it lies halfway between two doubles and goes to the even one.\<close>

lemma to_double_tie: "to_double 9007199254740993 = Finite 9007199254740992"
  by (simp add: to_double_def ulp_second round_to_even_def Let_def)

lemma dsub_exact: "exactly_held (a - b) \<Longrightarrow> dsub (Finite a) (Finite b) = Finite (a - b)"
  by (simp add: dsub_def to_double_exact)


section \<open>The storefront's remaining quantity\<close>

lemma count_ordered_step:
  "count_ordered acc oi
     = (if counts_towards_stock oi then dadd acc (Finite (oi_quantity oi)) else acc)"
  by (cases "oi_order oi") (auto simp: count_ordered_def counts_towards_stock_def)

lemma foldl_count_ordered:
  assumes "list_all exactly_held
             (running_totals acc (map oi_quantity (filter counts_towards_stock ois)))"
  shows "foldl count_ordered (Finite acc) ois
           = Finite (acc + sum_list (map oi_quantity (filter counts_towards_stock ois)))"
  using assms
proof (induction ois arbitrary: acc)
  case Nil
  show ?case by simp
next
  case (Cons oi ois)
  show ?case
  proof (cases "counts_towards_stock oi")
    case True
    with Cons.prems have now: "exactly_held (acc + oi_quantity oi)"
      and later: "list_all exactly_held
                    (running_totals (acc + oi_quantity oi)
                       (map oi_quantity (filter counts_towards_stock ois)))"
      by simp_all
    from True now have "count_ordered (Finite acc) oi = Finite (acc + oi_quantity oi)"
      by (simp add: count_ordered_step to_double_exact)
    with Cons.IH [OF later] True show ?thesis
      by (simp add: add.assoc)
  next
    case False
    with Cons.prems have later: "list_all exactly_held
                                   (running_totals acc (map oi_quantity (filter counts_towards_stock ois)))"
      by simp
    from False have "count_ordered (Finite acc) oi = Finite acc"
      by (simp add: count_ordered_step)
    with Cons.IH [OF later] False show ?thesis
      by simp
  qed
qed

lemma consumed_counted: "consumed item = sum_list (counted_quantities item)"
  by (simp add: consumed_def counted_quantities_def)

lemma totalOrdered_consumed:
  assumes "list_all exactly_held (running_totals 0 (counted_quantities item))"
  shows "totalOrdered item = Finite (consumed item)"
proof (cases "mi_order_items item")
  case (Val ois)
  with assms have "list_all exactly_held
                     (running_totals 0 (map oi_quantity (filter counts_towards_stock ois)))"
    by (simp add: counted_quantities_def order_items_of_def)
  from foldl_count_ordered [OF this] Val show ?thesis
    by (simp add: totalOrdered_def consumed_def order_items_of_def or_zero_def)
next
  case Undefined
  then show ?thesis
    by (simp add: totalOrdered_def consumed_def order_items_of_def)
next
  case Null
  then show ?thesis
    by (simp add: totalOrdered_def consumed_def order_items_of_def)
qed

lemma queryFn_rows:
  assumes "queryFn (Fulfilled resp) = Inr shown" and "data resp = Val items"
  shows "shown = map to_grid_item items"
proof (cases "error resp")
  case (Val e)
  with assms show ?thesis by (simp add: queryFn_def)
next
  case Undefined
  with assms show ?thesis by (cases "items = []") (auto simp: queryFn_def)
next
  case Null
  with assms show ?thesis by (cases "items = []") (auto simp: queryFn_def)
qed

lemma queryFn_answer_ok: "queryFn (answer_ok items) = Inr (map to_grid_item items)"
  by (simp add: queryFn_def answer_ok_def)

lemma counted_capped_dish: "counted_quantities capped_dish = [3, 2]"
  by (simp add: counted_quantities_def order_items_of_def capped_dish_def placed_def
        counts_towards_stock_def str_def menu_item.defs menu_item_with_orders.defs)

lemma counted_bulk_dish: "counted_quantities bulk_dish = [9007199254740992, 1, 1]"
  by (simp add: counted_quantities_def order_items_of_def bulk_dish_def placed_def
        counts_towards_stock_def str_def menu_item.defs menu_item_with_orders.defs)

lemma totalOrdered_bulk_dish: "totalOrdered bulk_dish = Finite 9007199254740992"
proof -
  have first: "to_double 9007199254740992 = Finite 9007199254740992"
    by (simp add: to_double_exact exactly_held_def)
  show ?thesis
    by (simp add: totalOrdered_def bulk_dish_def placed_def count_ordered_def str_def
          menu_item.defs menu_item_with_orders.defs Let_def first to_double_tie or_zero_def)
qed

text \<open>
  C1, as amended. For every fetched item with a quantity cap, as long as the running
  totals of the quantities that count and the difference of the cap and their sum stay
  within \<open>2^53\<close> in magnitude, the remaining quantity the storefront derives is the
  larger of zero and the cap minus the quantities of the item's order items whose order is
  pending or completed; order items of orders in any other status add nothing. With a cap
  of 10 and order items of 3 (pending), 2 (completed) and 5 (cancelled) it is 5.
\<close>

theorem remaining_quantity_of_capped_item:
  assumes "queryFn (Fulfilled resp) = Inr shown"
    and "data resp = Val items"
    and "i < length items"
    and "mi_quantity (items ! i) = Some cap"
    and "list_all exactly_held (running_totals 0 (counted_quantities (items ! i)))"
    and "exactly_held (cap - consumed (items ! i))"
  shows "length shown = length items \<and>
         g_id (shown ! i) = mi_id (items ! i) \<and>
         g_remainingQuantity (shown ! i) = Some (Finite (max 0 (cap - consumed (items ! i))))"
proof -
  have "shown = map to_grid_item items"
    using assms(1,2) by (rule queryFn_rows)
  moreover have "totalOrdered (items ! i) = Finite (consumed (items ! i))"
    using assms(5) by (rule totalOrdered_consumed)
  ultimately show ?thesis
    using assms(3,4,6)
    by (simp add: to_grid_item_def remainingQuantity_def dsub_exact)
qed

theorem remaining_quantity_of_capped_item_witness:
  "queryFn (answer_ok [capped_dish]) = Inr [to_grid_item capped_dish]
   \<and> mi_quantity capped_dish = Some 10
   \<and> map (\<lambda>oi. (oi_quantity oi, counts_towards_stock oi)) (order_items_of capped_dish)
       = [(3, True), (2, True), (5, False)]
   \<and> list_all exactly_held (running_totals 0 (counted_quantities capped_dish))
   \<and> exactly_held (10 - consumed capped_dish)
   \<and> g_remainingQuantity (to_grid_item capped_dish) = Some (Finite 5)"
proof -
  have q: "queryFn (Fulfilled \<lparr> data = Val [capped_dish], error = Null \<rparr>) = Inr [to_grid_item capped_dish]"
    using queryFn_answer_ok [of "[capped_dish]"] by (simp add: answer_ok_def)
  have d: "data \<lparr> data = Val [capped_dish], error = Null \<rparr> = Val [capped_dish]"
    by simp
  have i: "0 < length [capped_dish]"
    by simp
  have cap: "mi_quantity ([capped_dish] ! 0) = Some 10"
    by (simp add: capped_dish_def dish_def menu_item.defs menu_item_with_orders.defs)
  have ois: "map (\<lambda>oi. (oi_quantity oi, counts_towards_stock oi)) (order_items_of capped_dish)
       = [(3, True), (2, True), (5, False)]"
    by (simp add: order_items_of_def capped_dish_def placed_def counts_towards_stock_def
          str_def menu_item.defs menu_item_with_orders.defs)
  have c: "consumed capped_dish = 5"
    by (simp add: consumed_counted counted_capped_dish)
  have totals: "list_all exactly_held (running_totals 0 (counted_quantities ([capped_dish] ! 0)))"
    by (simp add: counted_capped_dish exactly_held_def)
  have diff: "exactly_held (10 - consumed ([capped_dish] ! 0))"
    by (simp add: c exactly_held_def)
  from remaining_quantity_of_capped_item [OF q d i cap totals diff] q cap ois c totals diff
  show ?thesis by (simp add: answer_ok_def)
qed

text \<open>
  C1, as stated, fails beyond that range: with a cap of \<open>2^54\<close> and order items of
  \<open>2^53\<close> (completed), 1 and 1 (pending), each further unit is lost in the addition, and
  the remaining quantity is \<open>2^53\<close> where the cap minus the sum is \<open>2^53 - 2\<close>.
\<close>

theorem remaining_quantity_beyond_exact_range:
  "queryFn (answer_ok [bulk_dish]) = Inr [to_grid_item bulk_dish]
   \<and> mi_quantity bulk_dish = Some 18014398509481984
   \<and> consumed bulk_dish = 9007199254740994
   \<and> g_remainingQuantity (to_grid_item bulk_dish) = Some (Finite 9007199254740992)
   \<and> max 0 (18014398509481984 - consumed bulk_dish) = 9007199254740990"
proof -
  have cap: "mi_quantity bulk_dish = Some 18014398509481984"
    by (simp add: bulk_dish_def dish_def menu_item.defs menu_item_with_orders.defs)
  have c: "consumed bulk_dish = 9007199254740994"
    by (simp add: consumed_counted counted_bulk_dish)
  have left: "dsub (Finite 18014398509481984) (Finite 9007199254740992) = Finite 9007199254740992"
    by (simp add: dsub_def to_double_exact exactly_held_def)
  have shown: "g_remainingQuantity (to_grid_item bulk_dish) = Some (Finite 9007199254740992)"
    by (simp add: to_grid_item_def remainingQuantity_def cap totalOrdered_bulk_dish left)
  from cap c shown queryFn_answer_ok [of "[bulk_dish]"] show ?thesis
    by simp
qed

text \<open>
  C7. For every fetched item whose quantity cap is null, the remaining quantity is null,
  whatever its order items are.
\<close>

theorem remaining_quantity_of_uncapped_item:
  assumes "queryFn (Fulfilled resp) = Inr shown"
    and "data resp = Val items"
    and "i < length items"
    and "mi_quantity (items ! i) = None"
  shows "g_remainingQuantity (shown ! i) = None"
proof -
  have "shown = map to_grid_item items"
    using assms(1,2) by (rule queryFn_rows)
  then show ?thesis
    using assms(3,4) by (simp add: to_grid_item_def remainingQuantity_def)
qed

theorem remaining_quantity_of_uncapped_item_witness:
  "mi_quantity uncapped_dish = None
   \<and> consumed uncapped_dish = 5
   \<and> g_remainingQuantity (to_grid_item uncapped_dish) = None"
proof -
  have q: "queryFn (Fulfilled \<lparr> data = Val [uncapped_dish], error = Null \<rparr>) = Inr [to_grid_item uncapped_dish]"
    using queryFn_answer_ok [of "[uncapped_dish]"] by (simp add: answer_ok_def)
  have d: "data \<lparr> data = Val [uncapped_dish], error = Null \<rparr> = Val [uncapped_dish]"
    by simp
  have i: "0 < length [uncapped_dish]"
    by simp
  have cap: "mi_quantity ([uncapped_dish] ! 0) = None"
    by (simp add: uncapped_dish_def dish_def menu_item.defs menu_item_with_orders.defs)
  have c: "consumed uncapped_dish = 5"
    by (simp add: consumed_def order_items_of_def uncapped_dish_def placed_def
          counts_towards_stock_def str_def menu_item.defs menu_item_with_orders.defs)
  from remaining_quantity_of_uncapped_item [OF q d i cap] cap c
  show ?thesis by simp
qed

text \<open>
  C8. A fetch that succeeds with no rows gives the empty list, and the component then
  renders the grid, without the error block and without a notification.
\<close>

theorem empty_fetch_renders_empty_grid:
  assumes "error_of (Fulfilled resp) = None"
    and "data resp = Val []"
  shows "queryFn (Fulfilled resp) = Inr [] \<and>
         Menu (query_settled (queryFn (Fulfilled resp))) = ([], MenuGrid [])"
proof -
  have "queryFn (Fulfilled resp) = Inr []"
    using assms by (cases "error resp") (simp_all add: queryFn_def error_of_def)
  then show ?thesis
    by (simp add: query_settled_def Menu_def)
qed

theorem empty_fetch_renders_empty_grid_witness:
  "error_of (answer_ok ([] :: menu_item_with_orders list)) = None
   \<and> queryFn (answer_ok []) = Inr []
   \<and> Menu (query_settled (queryFn (answer_ok []))) = ([], MenuGrid [])"
proof -
  have e: "error_of (Fulfilled \<lparr> data = Val ([] :: menu_item_with_orders list), error = Null \<rparr>) = None"
    by (simp add: error_of_def)
  have d: "data \<lparr> data = Val ([] :: menu_item_with_orders list), error = Null \<rparr> = Val []"
    by simp
  show ?thesis
    unfolding answer_ok_def using empty_fetch_renders_empty_grid [OF e d] e by blast
qed


section \<open>What an operation of the administration screen did\<close>


lemma requests_of_append: "requests_of (xs @ ys) = requests_of xs @ requests_of ys"
  by (induction xs rule: requests_of.induct) simp_all

lemma writes_of_append: "writes_of (xs @ ys) = writes_of xs @ writes_of ys"
  by (simp add: writes_of_def requests_of_append)

lemma writes_of_simps:
  "writes_of [] = []"
  "writes_of (Remote r # es) = written r @ writes_of es"
  "writes_of (Toast t # es) = writes_of es"
  "writes_of (ConsoleError m # es) = writes_of es"
  by (simp_all add: writes_of_def)

lemma load_caught_effects:
  "toasts_of load_caught = [failed_to_load]"
  "requests_of load_caught = []"
  "writes_of load_caught = []"
  by (simp_all add: load_caught_def writes_of_def)

lemma save_caught_effects:
  "toasts_of save_caught = [failed_to_save]"
  "requests_of save_caught = []"
  "writes_of save_caught = []"
  by (simp_all add: save_caught_def writes_of_def)

subsection \<open>loadMenuItems\<close>

lemma loadMenuItems_loading: "loading (snd (loadMenuItems env session st)) = False"
  by (simp add: loadMenuItems_def Let_def split: awaited.split jsopt.split prod.split)

lemma loadMenuItems_writes: "writes_of (fst (loadMenuItems env session st)) = []"
  by (simp add: loadMenuItems_def Let_def writes_of_simps writes_of_append load_caught_effects
           split: awaited.split jsopt.split)

lemma loadMenuItems_uploads: "filter is_upload (requests_of (fst (loadMenuItems env session st))) = []"
  by (simp add: loadMenuItems_def Let_def requests_of_append load_caught_effects
           split: awaited.split jsopt.split)

lemma loadMenuItems_rejected:
  assumes "l_vendor env (session_user_id session) = Rejected e"
  shows "toasts_of (fst (loadMenuItems env session st)) = [failed_to_load]"
  using assms by (simp add: loadMenuItems_def Let_def load_caught_effects)

lemma loadMenuItems_no_vendor_data:
  assumes "l_vendor env (session_user_id session) = Fulfilled resp"
    and "data resp = Null"
  shows "loadMenuItems env session st
           = ([Remote (SelectVendor (session_user_id session))], st\<lparr> loading := False \<rparr>)"
  using assms by (simp add: loadMenuItems_def Let_def)


lemma loadMenuItems_rows_error:
  assumes "l_vendor env (session_user_id session) = Fulfilled resp"
    and "data resp = Val v"
    and "l_menu_items env (vd_id v) = Fulfilled resp'"
    and "data resp' = Null"
  shows "loadMenuItems env session st
           = ([Remote (SelectVendor (session_user_id session)), Remote (SelectMenuItems (vd_id v))],
              st\<lparr> menuItems := [], loading := False \<rparr>)"
  using assms by (simp add: loadMenuItems_def Let_def)

subsection \<open>handleSubmit\<close>

lemma handleImageUpload_cases:
  "handleImageUpload env f =
     (case error_of (s_upload env (upload_path (s_randomUUID env) f) f) of
        Some e \<Rightarrow> ([Remote (Upload (upload_path (s_randomUUID env) f) f),
                    ConsoleError (str ''Error uploading image:'')], Inl e)
      | None \<Rightarrow> ([Remote (Upload (upload_path (s_randomUUID env) f) f)],
                  Inr (s_getPublicUrl env (upload_path (s_randomUUID env) f))))"
  by (simp add: handleImageUpload_def error_of_def Let_def split: awaited.split jsopt.split)

lemma choose_image_writes: "writes_of (fst (choose_image env st)) = []"
  by (simp add: choose_image_def handleImageUpload_cases writes_of_simps split: option.split)



lemma choose_image_uploaded:
  assumes "selectedImage st = Some f"
    and "error_of (s_upload env (upload_path (s_randomUUID env) f) f) = None"
  shows "choose_image env st
           = ([Remote (Upload (upload_path (s_randomUUID env) f) f)],
              Inr (Val (s_getPublicUrl env (upload_path (s_randomUUID env) f))))"
  using assms by (simp add: choose_image_def handleImageUpload_cases)

lemma choose_image_kept:
  assumes "selectedImage st = None"
  shows "choose_image env st
           = ([], Inr (case editingItem st of Some item \<Rightarrow> mi_image item | None \<Rightarrow> Undefined))"
  using assms by (simp add: choose_image_def)

lemma handleSubmit_no_vendor:
  assumes "resolve_vendor (s_vendor env (session_user_id session)) = Inl e"
  shows "handleSubmit env session st
           = (Remote (SelectVendor (session_user_id session)) # save_caught, st)"
  using assms by (simp add: handleSubmit_def Let_def)

lemma handleSubmit_no_image:
  assumes "resolve_vendor (s_vendor env (session_user_id session)) = Inr v"
    and "choose_image env st = (evs, Inl e)"
  shows "handleSubmit env session st
           = (Remote (SelectVendor (session_user_id session)) # evs @ save_caught, st)"
  using assms by (simp add: handleSubmit_def Let_def)

lemma handleSubmit_save_failed:
  assumes "resolve_vendor (s_vendor env (session_user_id session)) = Inr v"
    and "choose_image env st = (evs, Inr img)"
    and "save_error env (editingItem st) (menuItemData v (formData st) img) = Some e"
  shows "handleSubmit env session st =
           (Remote (SelectVendor (session_user_id session)) # evs
              @ Remote (save_request (editingItem st) (menuItemData v (formData st) img))
              # save_caught,
            st)"
  using assms by (simp add: handleSubmit_def Let_def)

lemma handleSubmit_saved:
  assumes "resolve_vendor (s_vendor env (session_user_id session)) = Inr v"
    and "choose_image env st = (evs, Inr img)"
    and "save_error env (editingItem st) (menuItemData v (formData st) img) = None"
  shows "handleSubmit env session st =
           (Remote (SelectVendor (session_user_id session)) # evs
              @ [Remote (save_request (editingItem st) (menuItemData v (formData st) img)),
                 Toast (saved (editingItem st))]
              @ fst (loadMenuItems (s_reload env) session
                       (resetForm (st\<lparr> isDialogOpen := False, editingItem := None,
                                       selectedImage := None \<rparr>))),
            snd (loadMenuItems (s_reload env) session
                   (resetForm (st\<lparr> isDialogOpen := False, editingItem := None,
                                   selectedImage := None \<rparr>))))"
  using assms by (simp add: handleSubmit_def Let_def split: prod.split)


lemma written_save_request: "written (save_request editing d) = [d]"
  by (simp add: save_request_def split: option.split)

lemma is_upload_save_request: "is_upload (save_request editing d) = False"
  by (simp add: save_request_def split: option.split)


text \<open>Once the vendor is known and the image is settled, exactly one row is written.\<close>

lemma handleSubmit_writes_reached:
  assumes v: "resolve_vendor (s_vendor env (session_user_id session)) = Inr v"
    and img: "choose_image env st = (evs, Inr img)"
  shows "writes_of (fst (handleSubmit env session st)) = [menuItemData v (formData st) img]"
proof -
  have evs: "writes_of evs = []"
    using choose_image_writes [of env st] img by simp
  show ?thesis
  proof (cases "save_error env (editingItem st) (menuItemData v (formData st) img)")
    case None
    show ?thesis
      by (simp add: handleSubmit_saved [OF v img None] writes_of_simps writes_of_append evs
            written_save_request loadMenuItems_writes)
  next
    case (Some e)
    show ?thesis
      by (simp add: handleSubmit_save_failed [OF v img Some] writes_of_simps writes_of_append evs
            written_save_request save_caught_effects)
  qed
qed

lemma handleSubmit_uploads_reached:
  assumes v: "resolve_vendor (s_vendor env (session_user_id session)) = Inr v"
    and img: "choose_image env st = (evs, Inr img)"
  shows "filter is_upload (requests_of (fst (handleSubmit env session st)))
           = filter is_upload (requests_of evs)"
proof (cases "save_error env (editingItem st) (menuItemData v (formData st) img)")
  case None
  show ?thesis
    by (simp add: handleSubmit_saved [OF v img None] requests_of_append is_upload_save_request
          loadMenuItems_uploads)
next
  case (Some e)
  show ?thesis
    by (simp add: handleSubmit_save_failed [OF v img Some] requests_of_append
          is_upload_save_request save_caught_effects)
qed

text \<open>Whatever happens, a row that is written was built from the form by \<open>menuItemData\<close>.\<close>

lemma handleSubmit_writes:
  assumes "d \<in> set (writes_of (fst (handleSubmit env session st)))"
  shows "\<exists>v img. d = menuItemData v (formData st) img"
proof (cases "resolve_vendor (s_vendor env (session_user_id session))")
  case (Inl e)
  with assms show ?thesis
    by (simp add: handleSubmit_no_vendor writes_of_simps save_caught_effects)
next
  case (Inr v)
  obtain evs r where ci: "choose_image env st = (evs, r)"
    by (cases "choose_image env st")
  have evs: "writes_of evs = []"
    using choose_image_writes [of env st] ci by simp
  show ?thesis
  proof (cases r)
    case (Inl e)
    with assms \<open>resolve_vendor (s_vendor env (session_user_id session)) = Inr v\<close> ci evs
    show ?thesis
      by (simp add: handleSubmit_no_image writes_of_simps writes_of_append save_caught_effects)
  next
    case (Inr img)
    with assms \<open>resolve_vendor (s_vendor env (session_user_id session)) = Inr v\<close> ci
    show ?thesis
      by (auto simp: handleSubmit_writes_reached)
  qed
qed

subsection \<open>handleEdit, then handleSubmit\<close>

text \<open>
  Opening the form on an item and submitting it as it is writes, as the price, what
  \<open>parseFloat\<close> reads from the text \<open>toString\<close> gave for the item's price, and
  keeps the item's image.
\<close>

lemma handleSubmit_after_handleEdit:
  assumes v: "resolve_vendor (s_vendor env (session_user_id session)) = Inr v"
    and none: "selectedImage st = None"
  shows "map d_price (writes_of (fst (handleSubmit env session (handleEdit toString item st))))
           = [parseFloat (toString (mi_price item))]
         \<and> map d_image (writes_of (fst (handleSubmit env session (handleEdit toString item st))))
           = [mi_image item]"
proof -
  have ci: "choose_image env (handleEdit toString item st) = ([], Inr (mi_image item))"
    using none by (simp add: choose_image_def handleEdit_def)
  have price: "f_price (formData (handleEdit toString item st)) = toString (mi_price item)"
    by (simp add: handleEdit_def)
  show ?thesis
    by (simp add: handleSubmit_writes_reached [OF v ci] menuItemData_def price)
qed

subsection \<open>The example environments\<close>

lemma working_vendor:
  "resolve_vendor (s_vendor working_env (session_user_id signed_in)) = Inr \<lparr> vd_id = str ''vendor-1'' \<rparr>"
  by (simp add: resolve_vendor_def working_env_def answer_ok_def)

lemma example_states:
  "selectedImage adding_state = None"
  "editingItem adding_state = None"
  "formData adding_state = typed_form"
  "isDialogOpen adding_state = True"
  "selectedImage editing_state = None"
  "editingItem editing_state = Some (dish ''kimchi'' ''vendor-1'' ''sides'')"
  "formData editing_state = typed_form"
  by (simp_all add: adding_state_def editing_state_def initial_state_def)

lemma parseFloat_typed_price: "parseFloat (str ''12abc'') = Decimal False 12 0"
  by (simp add: parseFloat_def unsignedDecimalLiteral_def Let_def str_def isWhiteSpace_def
        isDigit_def digits_value_def exponentPart_def)

lemma handleSubmit_request_reached:
  assumes v: "resolve_vendor (s_vendor env (session_user_id session)) = Inr v"
    and img: "choose_image env st = (evs, Inr img)"
  shows "Remote (save_request (editingItem st) (menuItemData v (formData st) img))
           \<in> set (fst (handleSubmit env session st))"
proof (cases "save_error env (editingItem st) (menuItemData v (formData st) img)")
  case None
  show ?thesis by (simp add: handleSubmit_saved [OF v img None])
next
  case (Some e)
  show ?thesis by (simp add: handleSubmit_save_failed [OF v img Some])
qed

lemma upload_path_form: "\<exists>ext. upload_path uuid f = uuid @ 46 # ext"
  by (simp add: upload_path_def Let_def str_def)

lemma upload_path_photo: "upload_path (str ''6f1c'') photo = str ''6f1c.png''"
  by (simp add: upload_path_def Let_def str_def photo_def pop_def in_template_def)


section \<open>Reading the price\<close>

lemma unsignedDecimalLiteral_NaN:
  "unsignedDecimalLiteral neg u = NaN \<longleftrightarrow>
     \<not> (take 8 u = str ''Infinity''
        \<or> (case u of
              [] \<Rightarrow> False
            | c # r \<Rightarrow> isDigit c \<or> (c = 46 \<and> (case r of [] \<Rightarrow> False | d # _ \<Rightarrow> isDigit d))))"
proof (cases u)
  case Nil
  then show ?thesis by (simp add: unsignedDecimalLiteral_def str_def)
next
  case (Cons c r)
  show ?thesis
  proof (cases "take 8 u = str ''Infinity''")
    case True
    then show ?thesis by (simp add: unsignedDecimalLiteral_def)
  next
    case notInf: False
    show ?thesis
    proof (cases "isDigit c")
      case True
      with notInf Cons show ?thesis
        by (simp add: unsignedDecimalLiteral_def Let_def split: list.split)
    next
      case False
      with notInf Cons show ?thesis
        by (cases r) (simp_all add: unsignedDecimalLiteral_def Let_def)
    qed
  qed
qed

lemma signed_literal_NaN:
  "((case t of
       [] \<Rightarrow> NaN
     | c # u \<Rightarrow>
         if c = 43 then unsignedDecimalLiteral False u
         else if c = 45 then unsignedDecimalLiteral True u
         else unsignedDecimalLiteral False (c # u)) = NaN)
   \<longleftrightarrow>
   \<not> (take 8 (case t of [] \<Rightarrow> [] | c # r \<Rightarrow> if c = 43 \<or> c = 45 then r else t) = str ''Infinity''
      \<or> (case (case t of [] \<Rightarrow> [] | c # r \<Rightarrow> if c = 43 \<or> c = 45 then r else t) of
            [] \<Rightarrow> False
          | c # r \<Rightarrow> isDigit c \<or> (c = 46 \<and> (case r of [] \<Rightarrow> False | d # _ \<Rightarrow> isDigit d))))"
proof (cases t)
  case Nil
  then show ?thesis by (simp add: str_def)
next
  case (Cons c u)
  then show ?thesis by (simp add: unsignedDecimalLiteral_NaN)
qed

lemma parseFloat_NaN: "parseFloat s = NaN \<longleftrightarrow> \<not> starts_number s"
  unfolding parseFloat_def starts_number_def Let_def by (rule signed_literal_NaN)

lemma parseFloat_garbled_price: "parseFloat (str ''abc'') = NaN"
  by (simp add: parseFloat_def unsignedDecimalLiteral_def Let_def str_def isWhiteSpace_def
        isDigit_def)

lemma typed_price_malformed: "\<not> numeric_text (str ''12abc'')"
  by (simp add: numeric_text_def Let_def str_def isDigit_def)


section \<open>Properties of the administration screen\<close>

text \<open>
  C2. The claim: on every failure of the load (network error, vendor lookup failure,
  permission failure) loading stops and exactly one failure notification is raised.
  \<open>loadMenuItems\<close> never looks at the \<open>error\<close> of a response, so a lookup that is
  answered with an error and no data stops loading and raises nothing: here the vendor
  lookup is answered with "permission denied".
\<close>

theorem load_answered_with_error_raises_nothing:
  "l_vendor denied_env (session_user_id signed_in) = answer_error (str ''permission denied'')
   \<and> loadMenuItems denied_env signed_in initial_state
       = ([Remote (SelectVendor (Val (str ''user-1'')))], initial_state\<lparr> loading := False \<rparr>)
   \<and> toasts_of (fst (loadMenuItems denied_env signed_in initial_state)) = []"
proof -
  have a: "l_vendor denied_env (session_user_id signed_in)
             = Fulfilled \<lparr> data = Null, error = Val (str ''permission denied'') \<rparr>"
    by (simp add: denied_env_def answer_error_def)
  have u: "session_user_id signed_in = Val (str ''user-1'')"
    by (simp add: session_user_id_def signed_in_def)
  have "loadMenuItems denied_env signed_in initial_state
          = ([Remote (SelectVendor (session_user_id signed_in))], initial_state\<lparr> loading := False \<rparr>)"
    using a by (rule loadMenuItems_no_vendor_data) simp
  with a u show ?thesis
    by (simp add: answer_error_def)
qed

text \<open>
  C3, as amended. Whatever the price text is, the submit writes the row, and the price in
  it is \<open>parseFloat\<close> of the text, unchecked. That value is \<open>NaN\<close> exactly when the text
  does not begin like a number (after leading white space and an optional sign:
  \<open>Infinity\<close>, a digit, or a point followed by a digit).
\<close>

theorem price_written_as_parsed:
  assumes "resolve_vendor (s_vendor env (session_user_id session)) = Inr v"
    and "choose_image env st = (evs, Inr img)"
  shows "map d_price (writes_of (fst (handleSubmit env session st)))
           = [parseFloat (f_price (formData st))]
         \<and> (parseFloat (f_price (formData st)) = NaN \<longleftrightarrow> \<not> starts_number (f_price (formData st)))"
  using handleSubmit_writes_reached [OF assms]
  by (simp add: menuItemData_def parseFloat_NaN)

theorem price_written_as_parsed_witness:
  "f_price (formData garbled_state) = str ''abc''
   \<and> \<not> starts_number (str ''abc'')
   \<and> map d_price (writes_of (fst (handleSubmit working_env signed_in garbled_state))) = [NaN]
   \<and> f_price (formData adding_state) = str ''12abc''
   \<and> starts_number (str ''12abc'')
   \<and> map d_price (writes_of (fst (handleSubmit working_env signed_in adding_state)))
       = [Decimal False 12 0]"
proof -
  have g: "choose_image working_env garbled_state = ([], Inr Undefined)"
    by (simp add: choose_image_def garbled_state_def adding_state_def initial_state_def)
  have a: "choose_image working_env adding_state = ([], Inr Undefined)"
    by (simp add: choose_image_def adding_state_def initial_state_def)
  have pg: "f_price (formData garbled_state) = str ''abc''"
    by (simp add: garbled_state_def)
  have pa: "f_price (formData adding_state) = str ''12abc''"
    by (simp add: example_states typed_form_def)
  from price_written_as_parsed [OF working_vendor g] price_written_as_parsed [OF working_vendor a]
  show ?thesis
    by (simp add: pg pa parseFloat_garbled_price parseFloat_typed_price)
qed

text \<open>
  C3, as stated, fails: the price text \<open>12abc\<close> is not a number, and the row written
  carries the price 12, not \<open>NaN\<close>.
\<close>

theorem malformed_price_written_as_number:
  "f_price (formData adding_state) = str ''12abc''
   \<and> \<not> numeric_text (str ''12abc'')
   \<and> map d_price (writes_of (fst (handleSubmit working_env signed_in adding_state)))
       = [Decimal False 12 0]
   \<and> Decimal False 12 0 \<noteq> NaN"
proof -
  have a: "choose_image working_env adding_state = ([], Inr Undefined)"
    by (simp add: choose_image_def adding_state_def initial_state_def)
  have pa: "f_price (formData adding_state) = str ''12abc''"
    by (simp add: example_states typed_form_def)
  from handleSubmit_writes_reached [OF working_vendor a]
  show ?thesis
    by (simp add: pa menuItemData_def parseFloat_typed_price typed_price_malformed)
qed

text \<open>
  C4. On submit, once the vendor is resolved: a selected image is uploaded under the
  path made of the random UUID drawn for it, a point and the file's extension, and the
  public URL of that path is the image of the row written; without a selected image the
  row written for an item being edited carries that item's stored image, unchanged, and
  the row written for a new item carries no image.
\<close>

theorem image_of_written_row:
  assumes "resolve_vendor (s_vendor env (session_user_id session)) = Inr v"
  shows "(\<forall>f. selectedImage st = Some f
              \<and> error_of (s_upload env (upload_path (s_randomUUID env) f) f) = None
            \<longrightarrow> filter is_upload (requests_of (fst (handleSubmit env session st)))
                  = [Upload (upload_path (s_randomUUID env) f) f]
                \<and> (\<exists>ext. upload_path (s_randomUUID env) f = s_randomUUID env @ 46 # ext)
                \<and> map d_image (writes_of (fst (handleSubmit env session st)))
                  = [Val (s_getPublicUrl env (upload_path (s_randomUUID env) f))])
         \<and> (\<forall>item. selectedImage st = None \<and> editingItem st = Some item
            \<longrightarrow> filter is_upload (requests_of (fst (handleSubmit env session st))) = []
                \<and> Remote (Update (menuItemData v (formData st) (mi_image item)) (mi_id item))
                    \<in> set (fst (handleSubmit env session st))
                \<and> map d_image (writes_of (fst (handleSubmit env session st))) = [mi_image item])
         \<and> (selectedImage st = None \<and> editingItem st = None
            \<longrightarrow> filter is_upload (requests_of (fst (handleSubmit env session st))) = []
                \<and> Remote (Insert [menuItemData v (formData st) Undefined])
                    \<in> set (fst (handleSubmit env session st))
                \<and> map d_image (writes_of (fst (handleSubmit env session st))) = [Undefined])"
proof (intro conjI allI impI)
  fix f
  assume sel: "selectedImage st = Some f
               \<and> error_of (s_upload env (upload_path (s_randomUUID env) f) f) = None"
  then have ci: "choose_image env st
                   = ([Remote (Upload (upload_path (s_randomUUID env) f) f)],
                      Inr (Val (s_getPublicUrl env (upload_path (s_randomUUID env) f))))"
    by (simp add: choose_image_uploaded)
  show "filter is_upload (requests_of (fst (handleSubmit env session st)))
          = [Upload (upload_path (s_randomUUID env) f) f]"
    by (simp add: handleSubmit_uploads_reached [OF assms ci])
  show "\<exists>ext. upload_path (s_randomUUID env) f = s_randomUUID env @ 46 # ext"
    by (rule upload_path_form)
  show "map d_image (writes_of (fst (handleSubmit env session st)))
          = [Val (s_getPublicUrl env (upload_path (s_randomUUID env) f))]"
    by (simp add: handleSubmit_writes_reached [OF assms ci] menuItemData_def)
next
  fix item
  assume kept: "selectedImage st = None \<and> editingItem st = Some item"
  then have ci: "choose_image env st = ([], Inr (mi_image item))"
    by (simp add: choose_image_kept)
  show "filter is_upload (requests_of (fst (handleSubmit env session st))) = []"
    by (simp add: handleSubmit_uploads_reached [OF assms ci])
  show "Remote (Update (menuItemData v (formData st) (mi_image item)) (mi_id item))
          \<in> set (fst (handleSubmit env session st))"
    using handleSubmit_request_reached [OF assms ci] kept by (simp add: save_request_def)
  show "map d_image (writes_of (fst (handleSubmit env session st))) = [mi_image item]"
    by (simp add: handleSubmit_writes_reached [OF assms ci] menuItemData_def)
next
  assume new: "selectedImage st = None \<and> editingItem st = None"
  then have ci: "choose_image env st = ([], Inr Undefined)"
    by (simp add: choose_image_kept)
  show "filter is_upload (requests_of (fst (handleSubmit env session st))) = []"
    by (simp add: handleSubmit_uploads_reached [OF assms ci])
  show "Remote (Insert [menuItemData v (formData st) Undefined])
          \<in> set (fst (handleSubmit env session st))"
    using handleSubmit_request_reached [OF assms ci] new by (simp add: save_request_def)
  show "map d_image (writes_of (fst (handleSubmit env session st))) = [Undefined]"
    by (simp add: handleSubmit_writes_reached [OF assms ci] menuItemData_def)
qed

theorem image_of_written_row_witness:
  "selectedImage attaching_state = Some photo
   \<and> filter is_upload (requests_of (fst (handleSubmit working_env signed_in attaching_state)))
       = [Upload (str ''6f1c.png'') photo]
   \<and> map d_image (writes_of (fst (handleSubmit working_env signed_in attaching_state)))
       = [Val (str ''https://cdn.example/6f1c.png'')]
   \<and> selectedImage editing_state = None
   \<and> map d_image (writes_of (fst (handleSubmit working_env signed_in editing_state)))
       = [Val (str ''https://cdn.example/old.png'')]
   \<and> selectedImage adding_state = None \<and> editingItem adding_state = None
   \<and> map d_image (writes_of (fst (handleSubmit working_env signed_in adding_state))) = [Undefined]"
proof -
  have sel: "selectedImage attaching_state = Some photo"
    by (simp add: attaching_state_def)
  have uuid: "s_randomUUID working_env = str ''6f1c''"
    by (simp add: working_env_def)
  have up: "error_of (s_upload working_env (upload_path (s_randomUUID working_env) photo) photo) = None"
    by (simp add: working_env_def answer_ok_def error_of_def)
  have url: "s_getPublicUrl working_env (str ''6f1c.png'') = str ''https://cdn.example/6f1c.png''"
    by (simp add: working_env_def str_def)
  have old: "mi_image (dish ''kimchi'' ''vendor-1'' ''sides'') = Val (str ''https://cdn.example/old.png'')"
    by (simp add: dish_def)
  note at_attaching = image_of_written_row [OF working_vendor, of attaching_state]
  note at_editing = image_of_written_row [OF working_vendor, of editing_state]
  note at_adding = image_of_written_row [OF working_vendor, of adding_state]
  from at_attaching sel up
  have one: "filter is_upload (requests_of (fst (handleSubmit working_env signed_in attaching_state)))
               = [Upload (str ''6f1c.png'') photo]
             \<and> map d_image (writes_of (fst (handleSubmit working_env signed_in attaching_state)))
               = [Val (str ''https://cdn.example/6f1c.png'')]"
    by (simp add: uuid upload_path_photo url)
  from at_editing
  have two: "map d_image (writes_of (fst (handleSubmit working_env signed_in editing_state)))
               = [Val (str ''https://cdn.example/old.png'')]"
    by (simp add: example_states old)
  from at_adding
  have three: "map d_image (writes_of (fst (handleSubmit working_env signed_in adding_state))) = [Undefined]"
    by (simp add: example_states)
  from one two three sel show ?thesis
    by (simp add: example_states)
qed



text \<open>
  C10. In every row the submit writes, an empty localized name, description or localized
  description of the form has become null, and a non-empty one is written as it is: none
  of the three is ever the empty string.
\<close>

theorem empty_texts_written_as_null:
  assumes "d \<in> set (writes_of (fst (handleSubmit env session st)))"
  shows "d_name_ko d \<noteq> Val [] \<and> d_description d \<noteq> Val [] \<and> d_description_ko d \<noteq> Val []
         \<and> d_name_ko d
             = (if f_name_ko (formData st) = [] then Null else Val (f_name_ko (formData st)))
         \<and> d_description d
             = (if f_description (formData st) = [] then Null else Val (f_description (formData st)))
         \<and> d_description_ko d
             = (if f_description_ko (formData st) = [] then Null
                else Val (f_description_ko (formData st)))"
proof -
  from handleSubmit_writes [OF assms]
  obtain v img where "d = menuItemData v (formData st) img"
    by blast
  then show ?thesis
    by (simp add: menuItemData_def or_null_def)
qed

theorem empty_texts_written_as_null_witness:
  "writes_of (fst (handleSubmit working_env signed_in adding_state))
     = [menuItemData \<lparr> vd_id = str ''vendor-1'' \<rparr> typed_form Undefined]
   \<and> f_name_ko typed_form = [] \<and> f_description typed_form = str ''Spicy''
   \<and> f_description_ko typed_form = []
   \<and> d_name_ko (menuItemData \<lparr> vd_id = str ''vendor-1'' \<rparr> typed_form Undefined) = Null
   \<and> d_description (menuItemData \<lparr> vd_id = str ''vendor-1'' \<rparr> typed_form Undefined)
       = Val (str ''Spicy'')
   \<and> d_description_ko (menuItemData \<lparr> vd_id = str ''vendor-1'' \<rparr> typed_form Undefined) = Null"
proof -
  have ci: "choose_image working_env adding_state = ([], Inr Undefined)"
    by (simp add: choose_image_def example_states)
  have w: "writes_of (fst (handleSubmit working_env signed_in adding_state))
             = [menuItemData \<lparr> vd_id = str ''vendor-1'' \<rparr> typed_form Undefined]"
    using handleSubmit_writes_reached [OF working_vendor ci] by (simp add: example_states)
  then have mem: "menuItemData \<lparr> vd_id = str ''vendor-1'' \<rparr> typed_form Undefined
                    \<in> set (writes_of (fst (handleSubmit working_env signed_in adding_state)))"
    by simp
  from empty_texts_written_as_null [OF mem] w
  show ?thesis
    by (simp add: example_states typed_form_def str_def)
qed



end
